theory Spec2Isabelle
  imports Complex_Main "HOL-Library.AList" "HOL-Library.Sublist"
begin

section \<open>JavaScript values at the HTTP boundary\<close>

text \<open>
  The client (\<^verbatim>\<open>src/frontend/app/page.tsx\<close>, \<^verbatim>\<open>src/unnamed/part_004\<close>) handles untyped
  JSON: the TypeScript annotations (\<^verbatim>\<open>Promise<any>\<close>) are erased at run time. A parsed body
  is a \<open>json\<close> value; a JavaScript \<^verbatim>\<open>undefined\<close> is \<open>None\<close> of \<open>json option\<close>.
  Numbers are rationals (the values the code itself writes are the integers 5 and 10).
  Strings are \<open>char list\<close>s, read as Latin-1 code units.
\<close>

datatype json =
    JNull
  | JBool bool
  | JNum rat
  | JStr string
  | JArr "json list"
  | JObj "(string \<times> json) list"

text \<open>
  What a \<^verbatim>\<open>throw\<close> can carry in the modelled code. \<open>Error v\<close> is \<^verbatim>\<open>new Error(v)\<close>: \<open>v\<close> is
  the constructor's argument (its string conversion is the message). \<open>TypeError\<close> is a
  property read on \<^verbatim>\<open>null\<close>, \<open>SyntaxError\<close> is \<^verbatim>\<open>response.json()\<close> on a body that is not
  JSON, \<open>FetchFailed\<close> is the rejection of \<^verbatim>\<open>fetch\<close> itself (network failure, abort).
\<close>

datatype js_error =
    Error json
  | TypeError
  | SyntaxError
  | FetchFailed string

text \<open>JavaScript truthiness, as \<^verbatim>\<open>||\<close> and \<^verbatim>\<open>if\<close> test it.\<close>

fun truthy :: "json \<Rightarrow> bool" where
  "truthy JNull = False"
| "truthy (JBool b) = b"
| "truthy (JNum n) = (n \<noteq> 0)"
| "truthy (JStr s) = (s \<noteq> [])"
| "truthy (JArr xs) = True"
| "truthy (JObj kvs) = True"

text \<open>
  \<^verbatim>\<open>v.k\<close> for a key \<open>k\<close> that is no built-in property of arrays, strings, numbers or
  booleans (the code reads \<^verbatim>\<open>detail\<close> and \<^verbatim>\<open>results\<close> only): reading from \<^verbatim>\<open>null\<close> throws,
  an object yields its last binding of \<open>k\<close> (as \<^verbatim>\<open>JSON.parse\<close> keeps it), anything else
  yields \<^verbatim>\<open>undefined\<close>.
\<close>

fun get_prop :: "json \<Rightarrow> string \<Rightarrow> js_error + json option" where
  "get_prop JNull k = Inl TypeError"
| "get_prop (JObj kvs) k = Inr (map_of (rev kvs) k)"
| "get_prop (JBool b) k = Inr None"
| "get_prop (JNum n) k = Inr None"
| "get_prop (JStr s) k = Inr None"
| "get_prop (JArr xs) k = Inr None"

text \<open>\<^verbatim>\<open>a || b\<close> where \<open>a\<close> may be \<^verbatim>\<open>undefined\<close>.\<close>

definition js_or :: "json option \<Rightarrow> json \<Rightarrow> json" where
  "js_or a b = (case a of None \<Rightarrow> b | Some v \<Rightarrow> if truthy v then v else b)"

text \<open>Decimal digits of a number, as a template literal prints \<^verbatim>\<open>response.status\<close>.\<close>

definition digit_char :: "nat \<Rightarrow> char" where
  "digit_char d = ''0123456789'' ! d"

fun string_of_nat :: "nat \<Rightarrow> string" where
  "string_of_nat n =
     (if n < 10 then [digit_char n]
      else string_of_nat (n div 10) @ [digit_char (n mod 10)])"

declare string_of_nat.simps [simp del]

section \<open>The API client (\<^verbatim>\<open>class ApiClient\<close>)\<close>

record js_file =
  file_name :: string
  file_content :: string

datatype body =
    JsonText json
  | FormData "(string \<times> js_file) list"

text \<open>
  What \<^verbatim>\<open>fetch\<close> is called with. \<open>req_method = None\<close> is a call without
  \<^verbatim>\<open>method\<close> (a GET). \<open>JsonText v\<close> is the body \<^verbatim>\<open>JSON.stringify(v)\<close>.
\<close>

record http_request =
  req_url :: string
  req_method :: "string option"
  req_headers :: "(string \<times> string) list"
  req_body :: "body option"

text \<open>
  A response: its status and its body as \<^verbatim>\<open>response.json()\<close> would parse it
  (\<open>None\<close> when the body is not JSON, so that \<^verbatim>\<open>response.json()\<close> rejects).
\<close>

record http_response =
  status :: nat
  body_json :: "json option"

definition response_ok :: "http_response \<Rightarrow> bool" where
  "response_ok r = (200 \<le> status r \<and> status r \<le> 299)"

datatype fetch_outcome =
    Rejected js_error
  | Responded http_response

type_synonym network = "http_request \<Rightarrow> fetch_outcome"

text \<open>
  The client object and the browser environment it writes to. \<open>window_defined\<close> is
  \<^verbatim>\<open>typeof window !== "undefined"\<close>; \<open>localStorage\<close> is the browser's key-value store.
\<close>

record api_client =
  baseUrl :: string
  token :: "string option"

record browser =
  window_defined :: bool
  localStorage :: "string \<rightharpoonup> string"

record request_init =
  opt_method :: "string option"
  opt_headers :: "(string \<times> string) list"
  opt_body :: "body option"

definition no_options :: request_init where
  "no_options = \<lparr>opt_method = None, opt_headers = [], opt_body = None\<rparr>"

text \<open>\<^verbatim>\<open>if (this.token) headers["Authorization"] = `Bearer ${this.token}`\<close>\<close>

definition with_authorization :: "api_client \<Rightarrow> (string \<times> string) list \<Rightarrow> (string \<times> string) list" where
  "with_authorization c hs =
     (case token c of
        None \<Rightarrow> hs
      | Some t \<Rightarrow> if t = [] then hs else AList.update ''Authorization'' (''Bearer '' @ t) hs)"

text \<open>The request \<^verbatim>\<open>ApiClient.request\<close> hands to \<^verbatim>\<open>fetch\<close>.\<close>

definition build_request :: "api_client \<Rightarrow> string \<Rightarrow> request_init \<Rightarrow> http_request" where
  "build_request c endpoint options =
     \<lparr>req_url = baseUrl c @ endpoint,
      req_method = opt_method options,
      req_headers =
        with_authorization c
          (fold (\<lambda>(k, v). AList.update k v) (opt_headers options)
             [(''Content-Type'', ''application/json'')]),
      req_body = opt_body options\<rparr>"

text \<open>
  The \<^verbatim>\<open>if (!response.ok)\<close> branch shared by \<^verbatim>\<open>request\<close> and \<^verbatim>\<open>uploadDocuments\<close>:
  \<^verbatim>\<open>
  const error = await response.json().catch(() => ({
    detail: `HTTP error! status: ${response.status}`,
  }));
  throw new Error(error.detail || fallback);
  \<close>
\<close>

definition failure_of :: "string \<Rightarrow> http_response \<Rightarrow> js_error" where
  "failure_of fallback r =
     (let error =
        (case body_json r of
           None \<Rightarrow> JObj [(''detail'', JStr (''HTTP error! status: '' @ string_of_nat (status r)))]
         | Some j \<Rightarrow> j)
      in case get_prop error ''detail'' of
           Inl e \<Rightarrow> e
         | Inr d \<Rightarrow> Error (js_or d (JStr fallback)))"

text \<open>What follows the \<^verbatim>\<open>await fetch(...)\<close> in both functions.\<close>

definition settle :: "string \<Rightarrow> fetch_outcome \<Rightarrow> js_error + json" where
  "settle fallback out =
     (case out of
        Rejected e \<Rightarrow> Inl e
      | Responded r \<Rightarrow>
          if \<not> response_ok r then Inl (failure_of fallback r)
          else (case body_json r of None \<Rightarrow> Inl SyntaxError | Some j \<Rightarrow> Inr j))"

text \<open>
  \<^verbatim>\<open>private async request<T>(endpoint, options = {})\<close>: the result (\<open>Inl\<close> is a rejected
  promise) and the requests sent.
\<close>

definition request ::
  "api_client \<Rightarrow> network \<Rightarrow> string \<Rightarrow> request_init \<Rightarrow> (js_error + json) \<times> http_request list" where
  "request c net endpoint options =
     (let req = build_request c endpoint options
      in (settle ''API request failed'' (net req), [req]))"

definition upload_request :: "api_client \<Rightarrow> string \<Rightarrow> js_file list \<Rightarrow> http_request" where
  "upload_request c docstoreId files =
     \<lparr>req_url = baseUrl c @ ''/api/v1/docstores/'' @ docstoreId @ ''/documents/upload'',
      req_method = Some ''POST'',
      req_headers = with_authorization c [],
      req_body = Some (FormData (map (\<lambda>f. (''files'', f)) files))\<rparr>"

definition uploadDocuments ::
  "api_client \<Rightarrow> network \<Rightarrow> string \<Rightarrow> js_file list \<Rightarrow> (js_error + json) \<times> http_request list" where
  "uploadDocuments c net docstoreId files =
     (let req = upload_request c docstoreId files
      in (settle ''Document upload failed'' (net req), [req]))"


text \<open>The query endpoints: \<^verbatim>\<open>queryDocstore\<close> and \<^verbatim>\<open>queryMultiDocstores\<close>.\<close>

definition post_json :: "json \<Rightarrow> request_init" where
  "post_json v = \<lparr>opt_method = Some ''POST'', opt_headers = [], opt_body = Some (JsonText v)\<rparr>"

definition queryDocstore ::
  "api_client \<Rightarrow> network \<Rightarrow> string \<Rightarrow> string \<Rightarrow> rat \<Rightarrow> (js_error + json) \<times> http_request list" where
  "queryDocstore c net docstoreId query topK =
     request c net (''/api/v1/docstores/'' @ docstoreId @ ''/query'')
       (post_json (JObj [(''query'', JStr query), (''top_k'', JNum topK)]))"

definition queryMultiDocstores ::
  "api_client \<Rightarrow> network \<Rightarrow> string list \<Rightarrow> string \<Rightarrow> rat \<Rightarrow> (js_error + json) \<times> http_request list" where
  "queryMultiDocstores c net docstoreIds query topK =
     request c net ''/api/v1/query/multi''
       (post_json (JObj [(''docstore_ids'', JArr (map JStr docstoreIds)),
                         (''query'', JStr query), (''top_k'', JNum topK)]))"

text \<open>\<^verbatim>\<open>ApiClient.deleteDocstore\<close>: a DELETE on the store's URL.\<close>

definition delete_request :: "api_client \<Rightarrow> string \<Rightarrow> http_request" where
  "delete_request c docstoreId =
     build_request c (''/api/v1/docstores/'' @ docstoreId)
       \<lparr>opt_method = Some ''DELETE'', opt_headers = [], opt_body = None\<rparr>"

definition api_deleteDocstore ::
  "api_client \<Rightarrow> network \<Rightarrow> string \<Rightarrow> (js_error + json) \<times> http_request list" where
  "api_deleteDocstore c net docstoreId =
     request c net (''/api/v1/docstores/'' @ docstoreId)
       \<lparr>opt_method = Some ''DELETE'', opt_headers = [], opt_body = None\<rparr>"

text \<open>
  \<^verbatim>\<open>clearToken\<close> forgets the token in the object and, in a browser, in \<^verbatim>\<open>localStorage\<close>.
\<close>

definition clearToken :: "api_client \<Rightarrow> browser \<Rightarrow> api_client \<times> browser" where
  "clearToken c b =
     (c\<lparr>token := None\<rparr>,
      if window_defined b then b\<lparr>localStorage := (localStorage b)(''token'' := None)\<rparr> else b)"

text \<open>
  \<^verbatim>\<open>
  async logout(): Promise<void> {
    try { await this.request("/api/v1/auth/logout", { method: "POST" }); }
    finally { this.clearToken(); }
  }
  \<close>
  The \<^verbatim>\<open>finally\<close> block runs on both paths; a failure of the request is re-thrown after it.
\<close>

definition api_logout ::
  "api_client \<Rightarrow> browser \<Rightarrow> network \<Rightarrow> (js_error + unit) \<times> api_client \<times> browser \<times> http_request list" where
  "api_logout c b net =
     (let (res, calls) =
            request c net ''/api/v1/auth/logout''
              \<lparr>opt_method = Some ''POST'', opt_headers = [], opt_body = None\<rparr>;
          (c', b') = clearToken c b
      in (case res of Inl e \<Rightarrow> Inl e | Inr j \<Rightarrow> Inr (), c', b', calls))"

section \<open>The auth store (\<^verbatim>\<open>useAuthStore\<close>)\<close>

record User =
  user_id :: string
  user_email :: string
  user_full_name :: "string option"
  user_is_active :: bool
  user_created_at :: string
  user_last_login :: "string option"

text \<open>
  The text an \<^verbatim>\<open>error\<close> field holds: the message of a caught error, or a literal of the
  code.
\<close>

datatype error_text =
    MessageOf js_error
  | Literal string

record AuthState =
  user :: "User option"
  isLoading :: bool
  error :: "error_text option"

text \<open>
  \<^verbatim>\<open>
  logout: async () => {
    set({ isLoading: true });
    try {
      await api.logout();
      set({ user: null, isLoading: false });
    } catch (error) {
      // Even if logout fails, clear local state
      set({ user: null, isLoading: false });
    }
  }
  \<close>
\<close>

definition logout ::
  "AuthState \<Rightarrow> api_client \<Rightarrow> browser \<Rightarrow> network \<Rightarrow> AuthState \<times> api_client \<times> browser \<times> http_request list" where
  "logout st c b net =
     (let st1 = st\<lparr>isLoading := True\<rparr>;
          (res, c', b', calls) = api_logout c b net
      in (case res of
            Inr u \<Rightarrow> st1\<lparr>user := None, isLoading := False\<rparr>
          | Inl e \<Rightarrow> st1\<lparr>user := None, isLoading := False\<rparr>,
          c', b', calls))"

section \<open>The docstore store (\<^verbatim>\<open>useDocstoreStore\<close>)\<close>

record Docstore =
  ds_id :: string
  ds_name :: string
  ds_slug :: string
  ds_description :: "string option"
  ds_index_name :: string
  ds_embedding_model :: string
  ds_chunking_strategy :: string
  ds_chunk_size :: nat
  ds_chunk_overlap :: nat
  ds_document_count :: nat
  ds_chunk_count :: nat
  ds_total_size_bytes :: nat
  ds_is_active :: bool
  ds_created_at :: string
  ds_updated_at :: string

record DocstoreState =
  docstores :: "Docstore list"
  currentDocstore :: "Docstore option"
  ds_isLoading :: bool
  ds_error :: "error_text option"

text \<open>
  \<^verbatim>\<open>
  deleteDocstore: async (id: string) => {
    set({ isLoading: true, error: null });
    try {
      await api.deleteDocstore(id);
      set((state) => ({
        docstores: state.docstores.filter((d) => d.id !== id),
        currentDocstore: state.currentDocstore?.id === id ? null : state.currentDocstore,
        isLoading: false,
      }));
    } catch (error) {
      set({ error: error instanceof Error ? error.message : "Failed to delete docstore",
            isLoading: false });
      throw error;
    }
  }
  \<close>
  Every value the client can throw is an \<^verbatim>\<open>Error\<close> instance, so the \<^verbatim>\<open>catch\<close> stores its
  message. The first component of the result is \<open>Inl e\<close> when the action re-throws.
\<close>

definition deleteDocstore ::
  "DocstoreState \<Rightarrow> api_client \<Rightarrow> network \<Rightarrow> string
     \<Rightarrow> (js_error + unit) \<times> DocstoreState \<times> http_request list" where
  "deleteDocstore st c net i =
     (let st1 = st\<lparr>ds_isLoading := True, ds_error := None\<rparr>;
          (res, calls) = api_deleteDocstore c net i
      in (case res of
            Inr j \<Rightarrow>
              (Inr (),
               st1\<lparr>docstores := filter (\<lambda>d. ds_id d \<noteq> i) (docstores st1),
                   currentDocstore :=
                     (case currentDocstore st1 of
                        None \<Rightarrow> None
                      | Some d \<Rightarrow> if ds_id d = i then None else Some d),
                   ds_isLoading := False\<rparr>,
               calls)
          | Inl e \<Rightarrow>
              (Inl e, st1\<lparr>ds_error := Some (MessageOf e), ds_isLoading := False\<rparr>, calls)))"

section \<open>The search page (\<^verbatim>\<open>SearchPage\<close>)\<close>

text \<open>
  The component's state. \<open>results\<close> holds whatever \<^verbatim>\<open>setResults\<close> was given: the
  server's JSON, normally an array of result objects.
\<close>

record SearchPage =
  query :: string
  selectedDocstores :: "string list"
  results :: json
  isSearching :: bool
  hasSearched :: bool

text \<open>
  \<^verbatim>\<open>String.prototype.trim\<close> on Latin-1 text: tab, line feed, vertical tab, form feed,
  carriage return, space and no-break space are removed from both ends.
\<close>

definition is_js_space :: "char \<Rightarrow> bool" where
  "is_js_space ch = (of_char ch \<in> {9, 10, 11, 12, 13, 32, 160 :: nat})"

definition js_trim :: "string \<Rightarrow> string" where
  "js_trim s = rev (dropWhile is_js_space (rev (dropWhile is_js_space s)))"

text \<open>
  \<^verbatim>\<open>setResults(searchResults.results || searchResults)\<close> inside the \<^verbatim>\<open>try\<close>, and the
  \<^verbatim>\<open>catch\<close> that shows an empty list instead.
\<close>

definition show_results :: "SearchPage \<Rightarrow> js_error + json \<Rightarrow> SearchPage" where
  "show_results st res =
     (case res of
        Inl e \<Rightarrow> st\<lparr>results := JArr []\<rparr>
      | Inr searchResults \<Rightarrow>
          (case get_prop searchResults ''results'' of
             Inl e \<Rightarrow> st\<lparr>results := JArr []\<rparr>
           | Inr r \<Rightarrow> st\<lparr>results := js_or r searchResults\<rparr>))"

text \<open>
  \<^verbatim>\<open>
  const handleSearch = async (e) => {
    e.preventDefault();
    if (!query.trim()) return;
    setIsSearching(true);
    setHasSearched(true);
    try {
      let searchResults;
      if (selectedDocstores.length === 0) {
        const allDocstoreIds = docstores.map((d) => d.id);
        if (allDocstoreIds.length === 0) {
          setResults([]); setIsSearching(false); return;
        }
        searchResults = await api.queryMultiDocstores(allDocstoreIds, query, 10);
      } else if (selectedDocstores.length === 1) {
        searchResults = await api.queryDocstore(selectedDocstores[0], query, 10);
      } else {
        searchResults = await api.queryMultiDocstores(selectedDocstores, query, 10);
      }
      setResults(searchResults.results || searchResults);
    } catch (error) { console.error(...); setResults([]); }
    finally { setIsSearching(false); }
  };
  \<close>
  The result is the page state after the handler and the requests it sent.
\<close>

definition handleSearch ::
  "api_client \<Rightarrow> network \<Rightarrow> Docstore list \<Rightarrow> SearchPage \<Rightarrow> SearchPage \<times> http_request list" where
  "handleSearch c net dss st =
     (if js_trim (query st) = [] then (st, [])
      else
        let st1 = st\<lparr>isSearching := True, hasSearched := True\<rparr>
        in if length (selectedDocstores st) = 0 then
             (let allDocstoreIds = map ds_id dss
              in if length allDocstoreIds = 0
                 then (st1\<lparr>results := JArr [], isSearching := False\<rparr>, [])
                 else (let (res, calls) = queryMultiDocstores c net allDocstoreIds (query st) 10
                       in ((show_results st1 res)\<lparr>isSearching := False\<rparr>, calls)))
           else if length (selectedDocstores st) = 1 then
             (let (res, calls) = queryDocstore c net (selectedDocstores st ! 0) (query st) 10
              in ((show_results st1 res)\<lparr>isSearching := False\<rparr>, calls))
           else
             (let (res, calls) = queryMultiDocstores c net (selectedDocstores st) (query st) 10
              in ((show_results st1 res)\<lparr>isSearching := False\<rparr>, calls)))"

text \<open>
  \<^verbatim>\<open>
  setSelectedDocstores((prev) =>
    prev.includes(docstoreId) ? prev.filter((id) => id !== docstoreId) : [...prev, docstoreId]);
  \<close>
\<close>

definition toggleDocstore :: "string list \<Rightarrow> string \<Rightarrow> string list" where
  "toggleDocstore prev docstoreId =
     (if docstoreId \<in> set prev then filter (\<lambda>i. i \<noteq> docstoreId) prev
      else prev @ [docstoreId])"

section \<open>The store orchestrator behind the API\<close>

text \<open>
  The server that answers the client's requests is not among the sources: the operations
  below are modelled from the specification's description of the Store Orchestrator, the
  Persistence Gateway and the Execution Client. The external systems are parameters.
\<close>

text \<open>Modelled from the spec: the error taxonomy of the orchestrator (not in the sources).\<close>

datatype failure =
    ValidationError string
  | ConflictError string
  | DependencyError string
  | RemoteWriteError string
  | PartialFailure string

subsection \<open>Multi-store query\<close>

text \<open>
  Modelled from the spec: the ranked entries
  \<^verbatim>\<open>{documentRef, content, score}\<close> the Execution Client returns (not in the sources).
\<close>

record hit =
  documentRef :: string
  content :: string
  score :: rat

text \<open>
  Modelled from the spec: the Execution Client's \<^verbatim>\<open>query(storeSlug, text, topK)\<close> (not in
  the sources), taken as a parameter: the ranked list of a store, or a failure.
\<close>

type_synonym execution_client = "string \<Rightarrow> string \<Rightarrow> nat \<Rightarrow> failure + hit list"

text \<open>
  Modelled from the spec: the fan-out of \<^verbatim>\<open>query(storeIds, text, topK)\<close> (not in the
  sources), one call per store in the order the ids are given; every entry is paired with
  the id of the store it came from, and the first failure is passed on to the caller.
\<close>

fun fan_out :: "execution_client \<Rightarrow> string list \<Rightarrow> string \<Rightarrow> nat \<Rightarrow> failure + (string \<times> hit) list" where
  "fan_out exec [] text topK = Inr []"
| "fan_out exec (s # ss) text topK =
     (case exec s text topK of
        Inl e \<Rightarrow> Inl e
      | Inr hs \<Rightarrow>
          (case fan_out exec ss text topK of
             Inl e \<Rightarrow> Inl e
           | Inr rest \<Rightarrow> Inr (map (Pair s) hs @ rest)))"

text \<open>
  Modelled from the spec: the re-sort of the merged entries by descending score (not in
  the sources). An entry goes in front of the first entry whose score is not higher than
  its own, so an earlier entry of the input stays in front of a later one of equal score.
\<close>

fun place :: "string \<times> hit \<Rightarrow> (string \<times> hit) list \<Rightarrow> (string \<times> hit) list" where
  "place x [] = [x]"
| "place x (y # ys) = (if score (snd y) \<le> score (snd x) then x # y # ys else y # place x ys)"

fun by_score :: "(string \<times> hit) list \<Rightarrow> (string \<times> hit) list" where
  "by_score [] = []"
| "by_score (x # xs) = place x (by_score xs)"

text \<open>Descending by score.\<close>

abbreviation ranked :: "(string \<times> hit) list \<Rightarrow> bool" where
  "ranked xs \<equiv> sorted_wrt (\<lambda>a b. score (snd b) \<le> score (snd a)) xs"

text \<open>
  Modelled from the spec: \<^verbatim>\<open>query(storeIds, text, topK)\<close> of the Store Orchestrator (not
  in the sources): a single id is answered by the single-store endpoint; several ids fan
  out, merge, re-sort by score and are capped at \<open>topK\<close>.
\<close>

definition orchestrator_query ::
  "execution_client \<Rightarrow> string list \<Rightarrow> string \<Rightarrow> nat \<Rightarrow> failure + (string \<times> hit) list" where
  "orchestrator_query exec storeIds text topK =
     (case storeIds of
        [s] \<Rightarrow> (case exec s text topK of Inl e \<Rightarrow> Inl e | Inr hs \<Rightarrow> Inr (map (Pair s) hs))
      | _ \<Rightarrow>
          (case fan_out exec storeIds text topK of
             Inl e \<Rightarrow> Inl e
           | Inr merged \<Rightarrow> Inr (take topK (by_score merged))))"

text \<open>
  The entries in input order: store by store as the ids are given, each store's entries
  in the order they were retrieved.
\<close>

definition retrieved :: "execution_client \<Rightarrow> string list \<Rightarrow> string \<Rightarrow> nat \<Rightarrow> (string \<times> hit) list" where
  "retrieved exec storeIds text topK =
     concat (map (\<lambda>s. case exec s text topK of Inl e \<Rightarrow> [] | Inr hs \<Rightarrow> map (Pair s) hs) storeIds)"

subsection \<open>Document upload\<close>

text \<open>Modelled from the spec: the Document row and its processing status (not in the sources).\<close>

datatype processing_status = DocPending | DocProcessing | DocCompleted | DocFailed

record document =
  doc_store :: string
  doc_filename :: string
  doc_size :: nat
  doc_checksum :: string
  doc_status :: processing_status
  doc_error :: "string option"
  doc_chunk_count :: nat

text \<open>Modelled from the spec: the per-file outcome of an upload (not in the sources).\<close>

datatype upload_outcome = Indexed | Duplicate | NotIndexed

text \<open>
  Modelled from the spec: the duplicate test of \<^verbatim>\<open>uploadDocuments\<close> (not in the sources):
  a Document of this store with the same checksum that is not \<^verbatim>\<open>failed\<close>.
\<close>

definition is_duplicate :: "document list \<Rightarrow> string \<Rightarrow> string \<Rightarrow> bool" where
  "is_duplicate docs storeId cs =
     (\<exists>d\<in>set docs. doc_store d = storeId \<and> doc_checksum d = cs \<and> doc_status d \<noteq> DocFailed)"

text \<open>
  Modelled from the spec: one file of \<^verbatim>\<open>uploadDocuments(storeId, files)\<close> (not in the
  sources). The checksum function and the Execution Client's indexing endpoint are
  parameters; \<open>submit\<close> answers a submission id or the text of a synchronous rejection.
  A file that is not a duplicate gets a \<^verbatim>\<open>pending\<close> row, which becomes \<^verbatim>\<open>processing\<close> when
  the submission is accepted and \<^verbatim>\<open>failed\<close> with the error text when it is rejected.
\<close>

definition upload_one ::
  "(string \<Rightarrow> string) \<Rightarrow> (string \<Rightarrow> js_file \<Rightarrow> string + string) \<Rightarrow> string \<Rightarrow> document list \<Rightarrow> js_file
     \<Rightarrow> document list \<times> upload_outcome" where
  "upload_one checksum submit storeId docs f =
     (let cs = checksum (file_content f)
      in if is_duplicate docs storeId cs then (docs, Duplicate)
         else
           let row = \<lparr>doc_store = storeId, doc_filename = file_name f,
                      doc_size = length (file_content f), doc_checksum = cs,
                      doc_status = DocPending, doc_error = None, doc_chunk_count = 0\<rparr>
           in case submit storeId f of
                Inr submission \<Rightarrow> (docs @ [row\<lparr>doc_status := DocProcessing\<rparr>], Indexed)
              | Inl err \<Rightarrow>
                  (docs @ [row\<lparr>doc_status := DocFailed, doc_error := Some err\<rparr>], NotIndexed))"

text \<open>
  Modelled from the spec: \<^verbatim>\<open>uploadDocuments(storeId, files)\<close> of the Store Orchestrator
  (not in the sources): the files one after the other, with one outcome per file.
\<close>

fun orchestrator_uploadDocuments ::
  "(string \<Rightarrow> string) \<Rightarrow> (string \<Rightarrow> js_file \<Rightarrow> string + string) \<Rightarrow> string \<Rightarrow> document list
     \<Rightarrow> js_file list \<Rightarrow> document list \<times> upload_outcome list" where
  "orchestrator_uploadDocuments checksum submit storeId docs [] = (docs, [])"
| "orchestrator_uploadDocuments checksum submit storeId docs (f # fs) =
     (let (docs1, outcome) = upload_one checksum submit storeId docs f;
          (docs2, outcomes) = orchestrator_uploadDocuments checksum submit storeId docs1 fs
      in (docs2, outcome # outcomes))"

text \<open>The Documents of a store that count as indexed for a checksum.\<close>

definition live_copies :: "document list \<Rightarrow> string \<Rightarrow> string \<Rightarrow> document list" where
  "live_copies docs storeId cs =
     filter (\<lambda>d. doc_store d = storeId \<and> doc_checksum d = cs
                 \<and> (doc_status d = DocProcessing \<or> doc_status d = DocCompleted)) docs"

subsection \<open>Store deletion\<close>

text \<open>Modelled from the spec: the Store and Pipeline rows (not in the sources).\<close>

record store =
  store_id :: string
  store_slug :: string
  store_name :: string
  store_index_name :: string
  store_document_count :: nat
  store_chunk_count :: nat
  store_total_bytes :: nat
  store_active :: bool

datatype pipeline_type = IndexingPipeline | QueryPipeline

record pipeline =
  pl_store :: string
  pl_type :: pipeline_type
  pl_definition :: string
  pl_version :: nat
  pl_deployed :: bool
  pl_active :: bool

record database =
  db_stores :: "store list"
  db_documents :: "document list"
  db_pipelines :: "pipeline list"

text \<open>
  Modelled from the spec: the Persistence Gateway's delete of a Store row with its cascade
  to Documents and Pipelines (not in the sources).
\<close>

definition delete_store_row :: "database \<Rightarrow> string \<Rightarrow> database" where
  "delete_store_row db storeId =
     \<lparr>db_stores = filter (\<lambda>s. store_id s \<noteq> storeId) (db_stores db),
      db_documents = filter (\<lambda>d. doc_store d \<noteq> storeId) (db_documents db),
      db_pipelines = filter (\<lambda>p. pl_store p \<noteq> storeId) (db_pipelines db)\<rparr>"

text \<open>
  Modelled from the spec: \<^verbatim>\<open>deleteStore(id)\<close> of the Store Orchestrator (not in the
  sources): the row is deleted first, then the backing index; a failed index deletion
  leaves the metadata deleted and is reported as a \<^verbatim>\<open>PartialFailure\<close> warning. The
  Search Index Manager's \<^verbatim>\<open>deleteIndex\<close> is a parameter.
\<close>

definition orchestrator_deleteStore ::
  "(string \<Rightarrow> failure + unit) \<Rightarrow> database \<Rightarrow> string \<Rightarrow> database \<times> failure option" where
  "orchestrator_deleteStore deleteIndex db storeId =
     (let names = map store_index_name (filter (\<lambda>s. store_id s = storeId) (db_stores db));
          db1 = delete_store_row db storeId
      in (db1,
          if \<exists>n\<in>set names. isl (deleteIndex n)
          then Some (PartialFailure ''index deletion failed'') else None))"

text \<open>No orphans: every Document and every Pipeline belongs to a Store that exists.\<close>

definition no_orphans :: "database \<Rightarrow> bool" where
  "no_orphans db =
     (list_all (\<lambda>d. doc_store d \<in> store_id ` set (db_stores db)) (db_documents db)
      \<and> list_all (\<lambda>p. pl_store p \<in> store_id ` set (db_stores db)) (db_pipelines db))"

section \<open>Example inputs\<close>

definition example_client :: api_client where
  "example_client = \<lparr>baseUrl = ''http://localhost:3081'', token = Some ''t0''\<rparr>"

definition example_browser :: browser where
  "example_browser = \<lparr>window_defined = True, localStorage = [''token'' \<mapsto> ''t0'']\<rparr>"

definition offline :: network where
  "offline = (\<lambda>q. Rejected (FetchFailed ''Failed to fetch''))"

definition answering :: "nat \<Rightarrow> json \<Rightarrow> network" where
  "answering n j = (\<lambda>q. Responded \<lparr>status = n, body_json = Some j\<rparr>)"

definition example_docstore :: "string \<Rightarrow> Docstore" where
  "example_docstore i =
     \<lparr>ds_id = i, ds_name = i, ds_slug = i, ds_description = None,
      ds_index_name = ''docstack-'' @ i @ ''-1735488000'',
      ds_embedding_model = ''BAAI/bge-large-en-v1.5'', ds_chunking_strategy = ''sentence'',
      ds_chunk_size = 55, ds_chunk_overlap = 5, ds_document_count = 0, ds_chunk_count = 0,
      ds_total_size_bytes = 0, ds_is_active = True, ds_created_at = ''2025-01-01'',
      ds_updated_at = ''2025-01-01''\<rparr>"

definition example_page :: "string \<Rightarrow> string list \<Rightarrow> SearchPage" where
  "example_page q sel =
     \<lparr>query = q, selectedDocstores = sel, results = JArr [JStr ''earlier''],
      isSearching = False, hasSearched = False\<rparr>"

definition example_user :: User where
  "example_user =
     \<lparr>user_id = ''u1'', user_email = ''a@b.c'', user_full_name = None, user_is_active = True,
      user_created_at = ''2025-01-01'', user_last_login = None\<rparr>"

definition example_hit :: "string \<Rightarrow> rat \<Rightarrow> hit" where
  "example_hit r x = \<lparr>documentRef = r, content = ''text of '' @ r, score = x\<rparr>"

definition example_exec :: execution_client where
  "example_exec s text topK =
     (if s = ''A'' then Inr [example_hit ''a1'' (9/10), example_hit ''a2'' (1/2)]
      else if s = ''B'' then Inr [example_hit ''b1'' (9/10), example_hit ''b2'' (7/10)]
      else Inl (DependencyError ''unknown store''))"

definition example_file :: "string \<Rightarrow> string \<Rightarrow> js_file" where
  "example_file n body = \<lparr>file_name = n, file_content = body\<rparr>"

definition example_document :: "string \<Rightarrow> string \<Rightarrow> processing_status \<Rightarrow> document" where
  "example_document s cs st =
     \<lparr>doc_store = s, doc_filename = ''report.pdf'', doc_size = 5, doc_checksum = cs,
      doc_status = st, doc_error = None, doc_chunk_count = 0\<rparr>"

definition example_store :: "string \<Rightarrow> store" where
  "example_store s =
     \<lparr>store_id = s, store_slug = s, store_name = s,
      store_index_name = ''docstack-'' @ s @ ''-1735488000'', store_document_count = 1,
      store_chunk_count = 0, store_total_bytes = 5, store_active = True\<rparr>"

definition example_pipeline :: "string \<Rightarrow> pipeline" where
  "example_pipeline s =
     \<lparr>pl_store = s, pl_type = QueryPipeline, pl_definition = ''components: {}'', pl_version = 1,
      pl_deployed = True, pl_active = True\<rparr>"

definition example_database :: database where
  "example_database =
     \<lparr>db_stores = [example_store ''finance'', example_store ''vwl''],
      db_documents = [example_document ''finance'' ''c1'' DocCompleted,
                      example_document ''vwl'' ''c1'' DocCompleted],
      db_pipelines = [example_pipeline ''vwl'', example_pipeline ''finance'']\<rparr>"

definition example_docstore_state :: DocstoreState where
  "example_docstore_state =
     \<lparr>docstores = [example_docstore ''a'', example_docstore ''b''],
      currentDocstore = Some (example_docstore ''a''), ds_isLoading = False, ds_error = None\<rparr>"

section \<open>Properties of the API client\<close>

lemma settle_not_ok:
  "\<not> response_ok r \<Longrightarrow> settle fb (Responded r) = Inl (failure_of fb r)"
  by (simp add: settle_def)

lemma settle_rejected: "settle fb (Rejected e) = Inl e"
  by (simp add: settle_def)

text \<open>
  C2, as stated, asks that a timeout and a response outside 200..299 fail in one uniform way
  and that the failure carries the remote status and the response body. \<^verbatim>\<open>request\<close> keeps
  the body's \<^verbatim>\<open>detail\<close> field only: a 500 and a 404 with different bodies and the same
  \<^verbatim>\<open>detail\<close> throw the same \<^verbatim>\<open>Error\<close>, from which neither the status nor the body can be
  read back, and a failed \<^verbatim>\<open>fetch\<close> throws a value of another shape.
\<close>

theorem C2_error_drops_status_and_body:
  "fst (request example_client
          (answering 500 (JObj [(''detail'', JStr ''boom''), (''trace'', JStr ''x'')]))
          ''/api/v1/docstores/'' no_options)
     = Inl (Error (JStr ''boom''))
   \<and> fst (request example_client (answering 404 (JObj [(''detail'', JStr ''boom'')]))
          ''/api/v1/docstores/'' no_options)
     = Inl (Error (JStr ''boom''))
   \<and> fst (request example_client offline ''/api/v1/docstores/'' no_options)
     = Inl (FetchFailed ''Failed to fetch'')"
  by (simp add: request_def settle_def response_ok_def failure_of_def js_or_def
        answering_def offline_def)

lemma failure_of_not_json:
  "body_json r = None \<Longrightarrow>
   failure_of fb r = Error (JStr (''HTTP error! status: '' @ string_of_nat (status r)))"
  by (simp add: failure_of_def js_or_def)

lemma failure_of_null: "body_json r = Some JNull \<Longrightarrow> failure_of fb r = TypeError"
  by (simp add: failure_of_def)

lemma failure_of_detail:
  "body_json r = Some j \<Longrightarrow> get_prop j ''detail'' = Inr (Some d) \<Longrightarrow> truthy d \<Longrightarrow>
   failure_of fb r = Error d"
  by (simp add: failure_of_def js_or_def)

lemma failure_of_fallback:
  "body_json r = Some j \<Longrightarrow>
   get_prop j ''detail'' = Inr None \<or> get_prop j ''detail'' = Inr (Some d) \<and> \<not> truthy d \<Longrightarrow>
   failure_of fb r = Error (JStr fb)"
  by (auto simp: failure_of_def js_or_def)

lemma failure_of_detail_only:
  "body_json r = Some j \<Longrightarrow> body_json r' = Some j' \<Longrightarrow>
   get_prop j ''detail'' = get_prop j' ''detail'' \<Longrightarrow>
   failure_of fb r = failure_of fb r'"
  by (simp add: failure_of_def)

text \<open>How a call ends when \<^verbatim>\<open>fetch\<close> answers with a status outside 200..299.\<close>

lemma settle_failure_shape:
  assumes "\<not> response_ok r"
  shows "isl (settle fb (Responded r))
    \<and> (body_json r = None \<longrightarrow>
           settle fb (Responded r)
             = Inl (Error (JStr (''HTTP error! status: '' @ string_of_nat (status r)))))
    \<and> (body_json r = Some JNull \<longrightarrow> settle fb (Responded r) = Inl TypeError)
    \<and> (body_json r = Some j \<and> get_prop j ''detail'' = Inr (Some d) \<and> truthy d \<longrightarrow>
           settle fb (Responded r) = Inl (Error d))
    \<and> (body_json r = Some j
           \<and> (get_prop j ''detail'' = Inr None \<or> get_prop j ''detail'' = Inr (Some d) \<and> \<not> truthy d) \<longrightarrow>
           settle fb (Responded r) = Inl (Error (JStr fb)))
    \<and> (\<not> response_ok r' \<and> body_json r = Some j \<and> body_json r' = Some j'
           \<and> get_prop j ''detail'' = get_prop j' ''detail'' \<longrightarrow>
           settle fb (Responded r') = settle fb (Responded r))"
proof -
  have a: "settle fb (Responded r) = Inl (failure_of fb r)"
    using assms by (rule settle_not_ok)
  have b: "\<not> response_ok r' \<longrightarrow> settle fb (Responded r') = Inl (failure_of fb r')"
    by (simp add: settle_not_ok)
  show ?thesis
    unfolding a
    using b failure_of_not_json [of r fb] failure_of_null [of r fb] failure_of_detail [of r j d fb]
      failure_of_fallback [of r j d fb] failure_of_detail_only [of r j r' j' fb]
    by auto
qed

text \<open>
  C2, amended: a response outside 200..299 is never returned as a success value, by
  \<^verbatim>\<open>request\<close> and by \<^verbatim>\<open>uploadDocuments\<close> alike: the call throws. It throws an \<^verbatim>\<open>Error\<close>
  with the text \<^verbatim>\<open>HTTP error! status: N\<close> when the body is not JSON, a \<^verbatim>\<open>TypeError\<close> when the
  body is JSON \<^verbatim>\<open>null\<close>, and otherwise an \<^verbatim>\<open>Error\<close> built from the body's \<^verbatim>\<open>detail\<close> field
  when that is truthy and from a fixed fallback text when it is missing or falsy. For JSON
  bodies the thrown value depends on the \<^verbatim>\<open>detail\<close> field alone: two responses with the
  same \<^verbatim>\<open>detail\<close> throw the same value whatever their status and the rest of their
  bodies. A rejected \<^verbatim>\<open>fetch\<close> is re-thrown as it is.
\<close>

theorem C2_non2xx_never_success:
  "(net (build_request c endpoint options) = Responded r \<and> \<not> response_ok r \<longrightarrow>
      isl (fst (request c net endpoint options))
      \<and> (body_json r = None \<longrightarrow>
            fst (request c net endpoint options)
              = Inl (Error (JStr (''HTTP error! status: '' @ string_of_nat (status r)))))
      \<and> (body_json r = Some JNull \<longrightarrow> fst (request c net endpoint options) = Inl TypeError)
      \<and> (body_json r = Some j \<and> get_prop j ''detail'' = Inr (Some d) \<and> truthy d \<longrightarrow>
            fst (request c net endpoint options) = Inl (Error d))
      \<and> (body_json r = Some j
            \<and> (get_prop j ''detail'' = Inr None \<or> get_prop j ''detail'' = Inr (Some d) \<and> \<not> truthy d) \<longrightarrow>
            fst (request c net endpoint options) = Inl (Error (JStr ''API request failed'')))
      \<and> (net' (build_request c endpoint options) = Responded r' \<and> \<not> response_ok r'
            \<and> body_json r = Some j \<and> body_json r' = Some j'
            \<and> get_prop j ''detail'' = get_prop j' ''detail'' \<longrightarrow>
            fst (request c net' endpoint options) = fst (request c net endpoint options)))
   \<and> (net (upload_request c docstoreId files) = Responded r \<and> \<not> response_ok r \<longrightarrow>
      isl (fst (uploadDocuments c net docstoreId files))
      \<and> (body_json r = None \<longrightarrow>
            fst (uploadDocuments c net docstoreId files)
              = Inl (Error (JStr (''HTTP error! status: '' @ string_of_nat (status r)))))
      \<and> (body_json r = Some JNull \<longrightarrow> fst (uploadDocuments c net docstoreId files) = Inl TypeError)
      \<and> (body_json r = Some j \<and> get_prop j ''detail'' = Inr (Some d) \<and> truthy d \<longrightarrow>
            fst (uploadDocuments c net docstoreId files) = Inl (Error d))
      \<and> (body_json r = Some j
            \<and> (get_prop j ''detail'' = Inr None \<or> get_prop j ''detail'' = Inr (Some d) \<and> \<not> truthy d) \<longrightarrow>
            fst (uploadDocuments c net docstoreId files) = Inl (Error (JStr ''Document upload failed'')))
      \<and> (net' (upload_request c docstoreId files) = Responded r' \<and> \<not> response_ok r'
            \<and> body_json r = Some j \<and> body_json r' = Some j'
            \<and> get_prop j ''detail'' = get_prop j' ''detail'' \<longrightarrow>
            fst (uploadDocuments c net' docstoreId files)
              = fst (uploadDocuments c net docstoreId files)))
   \<and> (net (build_request c endpoint options) = Rejected e \<longrightarrow>
      fst (request c net endpoint options) = Inl e)
   \<and> (net (upload_request c docstoreId files) = Rejected e \<longrightarrow>
      fst (uploadDocuments c net docstoreId files) = Inl e)"
proof -
  have req: "fst (request c n endpoint options)
      = settle ''API request failed'' (n (build_request c endpoint options))" for n
    by (simp add: request_def Let_def)
  have upl: "fst (uploadDocuments c n docstoreId files)
      = settle ''Document upload failed'' (n (upload_request c docstoreId files))" for n
    by (simp add: uploadDocuments_def Let_def)
  show ?thesis
    unfolding req upl
    using settle_failure_shape [where r = r and r' = r' and j = j and j' = j' and d = d
                                  and fb = "''API request failed''"]
      settle_failure_shape [where r = r and r' = r' and j = j and j' = j' and d = d
                              and fb = "''Document upload failed''"]
    by (simp add: settle_rejected)
qed

theorem C2_non2xx_never_success_witness:
  "\<not> response_ok \<lparr>status = 503, body_json = None\<rparr>
   \<and> fst (request example_client (\<lambda>q. Responded \<lparr>status = 503, body_json = None\<rparr>)
            ''/api/v1/docstores/'' no_options)
       = Inl (Error (JStr ''HTTP error! status: 503''))
   \<and> fst (uploadDocuments example_client (\<lambda>q. Responded \<lparr>status = 503, body_json = None\<rparr>)
            ''d1'' [\<lparr>file_name = ''a.txt'', file_content = ''hello''\<rparr>])
       = Inl (Error (JStr ''HTTP error! status: 503''))
   \<and> fst (request example_client (answering 500 JNull) ''/api/v1/docstores/'' no_options)
       = Inl TypeError
   \<and> fst (request example_client
            (answering 422 (JObj [(''detail'', JArr [JStr ''name too long''])]))
            ''/api/v1/docstores/'' no_options)
       = Inl (Error (JArr [JStr ''name too long'']))
   \<and> fst (uploadDocuments example_client (answering 500 (JObj [(''detail'', JStr [])]))
            ''d1'' [\<lparr>file_name = ''a.txt'', file_content = ''hello''\<rparr>])
       = Inl (Error (JStr ''Document upload failed''))
   \<and> fst (request example_client (answering 404 (JObj [(''detail'', JStr ''boom'')]))
            ''/api/v1/docstores/'' no_options)
       = fst (request example_client
            (answering 500 (JObj [(''detail'', JStr ''boom''), (''trace'', JStr ''x'')]))
            ''/api/v1/docstores/'' no_options)
   \<and> fst (request example_client offline ''/api/v1/docstores/'' no_options)
       = Inl (FetchFailed ''Failed to fetch'')"
proof -
  note t = C2_non2xx_never_success
    [where c = example_client and endpoint = "''/api/v1/docstores/''" and options = no_options
       and docstoreId = "''d1''" and files = "[\<lparr>file_name = ''a.txt'', file_content = ''hello''\<rparr>]"]
  have ev: "string_of_nat 503 = ''503''"
    by (simp add: digit_char_def
        string_of_nat.simps [of 503] string_of_nat.simps [of 50] string_of_nat.simps [of 5])
  have a: "\<not> response_ok \<lparr>status = 503, body_json = None\<rparr>"
    by (simp add: response_ok_def)
  have b: "fst (request example_client (\<lambda>q. Responded \<lparr>status = 503, body_json = None\<rparr>)
            ''/api/v1/docstores/'' no_options)
       = Inl (Error (JStr ''HTTP error! status: 503''))"
    "fst (uploadDocuments example_client (\<lambda>q. Responded \<lparr>status = 503, body_json = None\<rparr>)
            ''d1'' [\<lparr>file_name = ''a.txt'', file_content = ''hello''\<rparr>])
       = Inl (Error (JStr ''HTTP error! status: 503''))"
    using t [where net = "\<lambda>q. Responded \<lparr>status = 503, body_json = None\<rparr>"
               and r = "\<lparr>status = 503, body_json = None\<rparr>"] a
    by (simp_all add: ev)
  have c: "fst (request example_client (answering 500 JNull) ''/api/v1/docstores/'' no_options)
       = Inl TypeError"
    using t [where net = "answering 500 JNull" and r = "\<lparr>status = 500, body_json = Some JNull\<rparr>"]
    by (simp add: answering_def response_ok_def)
  have d: "fst (request example_client
            (answering 422 (JObj [(''detail'', JArr [JStr ''name too long''])]))
            ''/api/v1/docstores/'' no_options)
       = Inl (Error (JArr [JStr ''name too long'']))"
    using t [where net = "answering 422 (JObj [(''detail'', JArr [JStr ''name too long''])])"
               and r = "\<lparr>status = 422,
                         body_json = Some (JObj [(''detail'', JArr [JStr ''name too long''])])\<rparr>"
               and j = "JObj [(''detail'', JArr [JStr ''name too long''])]"
               and d = "JArr [JStr ''name too long'']"]
    by (simp add: answering_def response_ok_def)
  have e: "fst (uploadDocuments example_client (answering 500 (JObj [(''detail'', JStr [])]))
            ''d1'' [\<lparr>file_name = ''a.txt'', file_content = ''hello''\<rparr>])
       = Inl (Error (JStr ''Document upload failed''))"
    using t [where net = "answering 500 (JObj [(''detail'', JStr [])])"
               and r = "\<lparr>status = 500, body_json = Some (JObj [(''detail'', JStr [])])\<rparr>"
               and j = "JObj [(''detail'', JStr [])]" and d = "JStr []"]
    by (simp add: answering_def response_ok_def)
  have f: "fst (request example_client (answering 404 (JObj [(''detail'', JStr ''boom'')]))
            ''/api/v1/docstores/'' no_options)
       = fst (request example_client
            (answering 500 (JObj [(''detail'', JStr ''boom''), (''trace'', JStr ''x'')]))
            ''/api/v1/docstores/'' no_options)"
    using t [where net = "answering 500 (JObj [(''detail'', JStr ''boom''), (''trace'', JStr ''x'')])"
               and r = "\<lparr>status = 500,
                         body_json = Some (JObj [(''detail'', JStr ''boom''), (''trace'', JStr ''x'')])\<rparr>"
               and j = "JObj [(''detail'', JStr ''boom''), (''trace'', JStr ''x'')]"
               and net' = "answering 404 (JObj [(''detail'', JStr ''boom'')])"
               and r' = "\<lparr>status = 404, body_json = Some (JObj [(''detail'', JStr ''boom'')])\<rparr>"
               and j' = "JObj [(''detail'', JStr ''boom'')]"]
    by (simp add: answering_def response_ok_def)
  have g: "fst (request example_client offline ''/api/v1/docstores/'' no_options)
       = Inl (FetchFailed ''Failed to fetch'')"
    using t [where net = offline and e = "FetchFailed ''Failed to fetch''"]
    by (simp add: offline_def)
  from a b c d e f g show ?thesis by blast
qed

section \<open>Properties of the search page\<close>

lemma dropWhile_all_space: "\<forall>x\<in>set (dropWhile P s). P x \<Longrightarrow> dropWhile P s = []"
proof (induction s)
  case Nil
  then show ?case by simp
next
  case (Cons a s)
  show ?case
  proof (cases "P a")
    case True
    with Cons.prems have "\<forall>x\<in>set (dropWhile P s). P x" by simp
    then have "dropWhile P s = []" by (rule Cons.IH)
    with True show ?thesis by simp
  next
    case False
    with Cons.prems show ?thesis by simp
  qed
qed

text \<open>\<^verbatim>\<open>!query.trim()\<close> holds exactly for a text of white space only (the empty text too).\<close>

lemma js_trim_empty_iff: "js_trim s = [] \<longleftrightarrow> (\<forall>ch\<in>set s. is_js_space ch)"
proof
  assume "js_trim s = []"
  then have "\<forall>x\<in>set (dropWhile is_js_space s). is_js_space x"
    by (simp add: js_trim_def dropWhile_eq_Nil_conv)
  then have "dropWhile is_js_space s = []"
    by (rule dropWhile_all_space)
  then show "\<forall>ch\<in>set s. is_js_space ch"
    by (simp add: dropWhile_eq_Nil_conv)
next
  assume "\<forall>ch\<in>set s. is_js_space ch"
  then show "js_trim s = []"
    by (auto simp: js_trim_def dest: set_dropWhileD)
qed

lemma trim_cats: "js_trim ''cats'' = ''cats''"
  by (simp add: js_trim_def is_js_space_def)

lemma trim_blank: "js_trim [CHR '' '', CHR 0x09] = []"
  by (simp add: js_trim_def is_js_space_def)

text \<open>
  C1, as stated, has every query request reach a query endpoint, and an empty selection
  query all known stores through the multi-store endpoint. \<^verbatim>\<open>handleSearch\<close> has two guards
  before any call: with no store selected and no store known it sends nothing, and with a
  text of white space only it sends nothing whatever is selected.
\<close>

theorem C1_no_call_counterexample:
  "snd (handleSearch example_client (answering 200 (JArr [])) [] (example_page ''cats'' [])) = []
   \<and> snd (handleSearch example_client (answering 200 (JArr [])) [example_docstore ''a'']
            (example_page [CHR '' '', CHR 0x09] [''a''])) = []"
  by (simp add: handleSearch_def example_page_def trim_cats trim_blank)

text \<open>
  C1, amended: for every search submitted with a text that is not blank, \<^verbatim>\<open>handleSearch\<close>
  sends exactly one request: with exactly one store selected, a POST of the text and
  \<^verbatim>\<open>top_k\<close> 10 to that store's query endpoint; with more than one selected, a POST to the
  multi-store endpoint with the full selection; with none selected and at least one store
  known, a POST to the multi-store endpoint with the ids of all known stores.
\<close>

theorem C1_query_routing:
  "js_trim (query st) \<noteq> [] \<Longrightarrow>
   (selectedDocstores st = [s] \<longrightarrow>
      snd (handleSearch c net dss st) =
        [build_request c (''/api/v1/docstores/'' @ s @ ''/query'')
           (post_json (JObj [(''query'', JStr (query st)), (''top_k'', JNum 10)]))])
   \<and> (1 < length (selectedDocstores st) \<longrightarrow>
      snd (handleSearch c net dss st) =
        [build_request c ''/api/v1/query/multi''
           (post_json (JObj [(''docstore_ids'', JArr (map JStr (selectedDocstores st))),
                             (''query'', JStr (query st)), (''top_k'', JNum 10)]))])
   \<and> (selectedDocstores st = [] \<and> dss \<noteq> [] \<longrightarrow>
      snd (handleSearch c net dss st) =
        [build_request c ''/api/v1/query/multi''
           (post_json (JObj [(''docstore_ids'', JArr (map JStr (map ds_id dss))),
                             (''query'', JStr (query st)), (''top_k'', JNum 10)]))])"
  by (simp add: handleSearch_def queryDocstore_def queryMultiDocstores_def request_def Let_def)

theorem C1_query_routing_witness:
  "js_trim ''cats'' \<noteq> []
   \<and> map req_url (snd (handleSearch example_client offline [] (example_page ''cats'' [''a''])))
       = [''http://localhost:3081/api/v1/docstores/a/query'']
   \<and> map req_url (snd (handleSearch example_client offline [] (example_page ''cats'' [''a'', ''b''])))
       = [''http://localhost:3081/api/v1/query/multi'']
   \<and> map req_body (snd (handleSearch example_client offline [] (example_page ''cats'' [''a'', ''b''])))
       = [Some (JsonText (JObj [(''docstore_ids'', JArr [JStr ''a'', JStr ''b'']),
                                (''query'', JStr ''cats''), (''top_k'', JNum 10)]))]
   \<and> map req_body (snd (handleSearch example_client offline
                           [example_docstore ''a'', example_docstore ''b''] (example_page ''cats'' [])))
       = [Some (JsonText (JObj [(''docstore_ids'', JArr [JStr ''a'', JStr ''b'']),
                                (''query'', JStr ''cats''), (''top_k'', JNum 10)]))]"
  using C1_query_routing [of "example_page ''cats'' [''a'']" "''a''" example_client offline "[]"]
    C1_query_routing [of "example_page ''cats'' [''a'', ''b'']" "''a''" example_client offline "[]"]
    C1_query_routing [of "example_page ''cats'' []" "''a''" example_client offline
               "[example_docstore ''a'', example_docstore ''b'']"]
  by (simp add: example_page_def trim_cats build_request_def post_json_def example_client_def
        example_docstore_def)

text \<open>
  C10: a search with a text that is not blank, no store selected and no store known sets
  the results to the empty list and sends no request; a search whose text is empty or
  white space only sends no request and leaves the results as they were.
\<close>

theorem C10_guards_send_nothing:
  "(js_trim (query st) \<noteq> [] \<and> selectedDocstores st = [] \<and> dss = [] \<longrightarrow>
      results (fst (handleSearch c net dss st)) = JArr [] \<and> snd (handleSearch c net dss st) = [])
   \<and> ((\<forall>ch\<in>set (query st). is_js_space ch) \<longrightarrow>
      snd (handleSearch c net dss st) = [] \<and> results (fst (handleSearch c net dss st)) = results st)"
  by (simp add: handleSearch_def js_trim_empty_iff)

theorem C10_guards_send_nothing_witness:
  "js_trim ''cats'' \<noteq> []
   \<and> results (fst (handleSearch example_client offline [] (example_page ''cats'' []))) = JArr []
   \<and> snd (handleSearch example_client offline [] (example_page ''cats'' [])) = []
   \<and> list_all is_js_space [CHR '' '', CHR 0x09]
   \<and> snd (handleSearch example_client offline [example_docstore ''a'']
             (example_page [CHR '' '', CHR 0x09] [''a''])) = []
   \<and> results (fst (handleSearch example_client offline [example_docstore ''a'']
             (example_page [CHR '' '', CHR 0x09] [''a''])))
       = JArr [JStr ''earlier'']"
  using C10_guards_send_nothing [of "example_page ''cats'' []" "[]" example_client offline]
    C10_guards_send_nothing [of "example_page [CHR '' '', CHR 0x09] [''a'']"
      "[example_docstore ''a'']" example_client offline]
  by (simp add: example_page_def trim_cats is_js_space_def)

text \<open>
  C9: \<^verbatim>\<open>toggleDocstore\<close> removes the id from a selection that holds it (every occurrence)
  and appends it to one that does not; toggling the same id twice gives a selection with
  the same set of ids as the first.
\<close>

theorem C9_toggle_twice:
  "(i \<in> set xs \<longrightarrow> toggleDocstore xs i = filter (\<lambda>j. j \<noteq> i) xs \<and> i \<notin> set (toggleDocstore xs i))
   \<and> (i \<notin> set xs \<longrightarrow> toggleDocstore xs i = xs @ [i])
   \<and> set (toggleDocstore (toggleDocstore xs i) i) = set xs"
  by (auto simp: toggleDocstore_def)

theorem C9_toggle_twice_witness:
  "toggleDocstore [''a'', ''b'', ''a''] ''a'' = [''b'']
   \<and> toggleDocstore [''b''] ''a'' = [''b'', ''a'']
   \<and> toggleDocstore (toggleDocstore [''a'', ''b'', ''a''] ''a'') ''a'' = [''b'', ''a'']
   \<and> set (toggleDocstore (toggleDocstore [''a'', ''b'', ''a''] ''a'') ''a'') = set [''a'', ''b'', ''a'']"
  using C9_toggle_twice [of "''a''" "[''a'', ''b'', ''a'']"] C9_toggle_twice [of "''a''" "[''b'']"]
  by auto

section \<open>Properties of the auth store\<close>

text \<open>
  C8: whatever the network answers to the logout request (success, an error status, no
  answer at all), \<^verbatim>\<open>logout\<close> ends with \<^verbatim>\<open>user = null\<close> and \<^verbatim>\<open>isLoading = false\<close> in the
  auth store, with the client's token forgotten and, in a browser, with no \<^verbatim>\<open>token\<close> entry
  left in \<^verbatim>\<open>localStorage\<close>.
\<close>

theorem C8_logout_always_clears:
  "user (fst (logout st c b net)) = None
   \<and> isLoading (fst (logout st c b net)) = False
   \<and> token (fst (snd (logout st c b net))) = None
   \<and> (window_defined b \<longrightarrow> localStorage (fst (snd (snd (logout st c b net)))) ''token'' = None)"
  by (simp add: logout_def api_logout_def clearToken_def Let_def split: prod.splits sum.splits)

theorem C8_logout_always_clears_witness:
  "window_defined example_browser
   \<and> fst (api_logout example_client example_browser offline) = Inl (FetchFailed ''Failed to fetch'')
   \<and> user (fst (logout \<lparr>user = Some example_user, isLoading = False, error = None\<rparr>
                   example_client example_browser offline)) = None
   \<and> localStorage (fst (snd (snd (logout \<lparr>user = Some example_user, isLoading = False, error = None\<rparr>
                   example_client example_browser offline)))) ''token'' = None"
  using C8_logout_always_clears [of "\<lparr>user = Some example_user, isLoading = False, error = None\<rparr>"
                  example_client example_browser offline]
  by (simp add: example_browser_def api_logout_def request_def settle_def offline_def clearToken_def)

section \<open>Properties of the multi-store query\<close>

lemma set_place: "set (place x ys) = insert x (set ys)"
  by (induction ys) auto

lemma length_place: "length (place x ys) = Suc (length ys)"
  by (induction ys) auto

lemma ranked_place: "ranked ys \<Longrightarrow> ranked (place x ys)"
  by (induction ys) (auto simp: set_place)

lemma ranked_by_score: "ranked (by_score xs)"
  by (induction xs) (auto simp: ranked_place)

lemma set_by_score: "set (by_score xs) = set xs"
  by (induction xs) (auto simp: set_place)

lemma length_by_score: "length (by_score xs) = length xs"
  by (induction xs) (auto simp: length_place)

lemma ties_place:
  "ranked ys \<Longrightarrow>
   filter (\<lambda>e. score (snd e) = k) (place x ys) =
     (if score (snd x) = k then x # filter (\<lambda>e. score (snd e) = k) ys
      else filter (\<lambda>e. score (snd e) = k) ys)"
proof (induction ys)
  case Nil
  then show ?case by simp
next
  case (Cons y ys)
  show ?case
  proof (cases "score (snd y) \<le> score (snd x)")
    case True
    then show ?thesis by simp
  next
    case False
    with Cons show ?thesis by auto
  qed
qed

lemma ties_by_score:
  "filter (\<lambda>e. score (snd e) = k) (by_score xs) = filter (\<lambda>e. score (snd e) = k) xs"
  by (induction xs) (simp_all add: ties_place ranked_by_score)

lemma fan_out_retrieved:
  "\<forall>s\<in>set storeIds. \<exists>hs. exec s text topK = Inr hs \<Longrightarrow>
   fan_out exec storeIds text topK = Inr (retrieved exec storeIds text topK)"
  by (induction storeIds) (auto simp: retrieved_def)

lemma retrieved_source:
  "(s, h) \<in> set (retrieved exec storeIds text topK) \<Longrightarrow>
   s \<in> set storeIds \<and> (\<exists>hs. exec s text topK = Inr hs \<and> h \<in> set hs)"
  by (auto simp: retrieved_def split: sum.splits) (metis)

text \<open>
  C3: a query over several stores whose single-store queries all succeed returns one list of
  at most \<open>topK\<close> entries, sorted by descending score; every entry carries the id of a
  queried store and is an entry that store returned; entries of equal score stand in input
  order (the stores as the ids were given, each store's entries as they were retrieved), so
  the list is a function of the inputs alone.
\<close>

theorem C3_multi_store_ranking:
  assumes multi: "length storeIds \<noteq> 1"
    and up: "\<forall>s\<in>set storeIds. \<exists>hs. exec s text topK = Inr hs"
  shows "\<exists>res. orchestrator_query exec storeIds text topK = Inr res
    \<and> length res \<le> topK
    \<and> sorted_wrt (\<lambda>a b. score (snd b) \<le> score (snd a)) res
    \<and> (\<forall>(s, h)\<in>set res. s \<in> set storeIds \<and> (\<exists>hs. exec s text topK = Inr hs \<and> h \<in> set hs))
    \<and> (\<forall>k. prefix (filter (\<lambda>e. score (snd e) = k) res)
                    (filter (\<lambda>e. score (snd e) = k) (retrieved exec storeIds text topK)))"
proof -
  let ?all = "retrieved exec storeIds text topK"
  let ?res = "take topK (by_score ?all)"
  have fan: "fan_out exec storeIds text topK = Inr ?all"
    using up by (rule fan_out_retrieved)
  have q: "orchestrator_query exec storeIds text topK = Inr ?res"
  proof (cases storeIds)
    case Nil
    with fan show ?thesis by (simp add: orchestrator_query_def)
  next
    case (Cons s ss)
    with multi obtain t ts where "ss = t # ts" by (cases ss) auto
    with Cons fan show ?thesis by (simp add: orchestrator_query_def)
  qed
  have len: "length ?res \<le> topK" by simp
  have srt: "ranked ?res"
    using ranked_by_score [of ?all] by (rule sorted_wrt_take)
  have src: "\<forall>(s, h)\<in>set ?res. s \<in> set storeIds \<and> (\<exists>hs. exec s text topK = Inr hs \<and> h \<in> set hs)"
  proof (clarify)
    fix s h
    assume "(s, h) \<in> set ?res"
    then have "(s, h) \<in> set (by_score ?all)" by (rule in_set_takeD)
    then have "(s, h) \<in> set ?all" by (simp add: set_by_score)
    then show "s \<in> set storeIds \<and> (\<exists>hs. exec s text topK = Inr hs \<and> h \<in> set hs)"
      by (rule retrieved_source)
  qed
  have ties: "\<forall>k. prefix (filter (\<lambda>e. score (snd e) = k) ?res) (filter (\<lambda>e. score (snd e) = k) ?all)"
  proof
    fix k
    have "prefix ?res (by_score ?all)" by (rule take_is_prefix)
    then have "prefix (filter (\<lambda>e. score (snd e) = k) ?res) (filter (\<lambda>e. score (snd e) = k) (by_score ?all))"
      by (rule filter_mono_prefix)
    then show "prefix (filter (\<lambda>e. score (snd e) = k) ?res) (filter (\<lambda>e. score (snd e) = k) ?all)"
      by (simp add: ties_by_score)
  qed
  from q len srt src ties show ?thesis by blast
qed

theorem C3_multi_store_ranking_witness:
  "length [''A'', ''B''] \<noteq> 1
   \<and> orchestrator_query example_exec [''A'', ''B''] ''cats'' 3 =
       Inr [(''A'', example_hit ''a1'' (9/10)), (''B'', example_hit ''b1'' (9/10)),
            (''B'', example_hit ''b2'' (7/10))]
   \<and> (\<exists>res. orchestrator_query example_exec [''A'', ''B''] ''cats'' 3 = Inr res \<and> length res \<le> 3)"
  using C3_multi_store_ranking [of "[''A'', ''B'']" example_exec "''cats''" 3]
  by (simp add: orchestrator_query_def example_exec_def example_hit_def)

section \<open>Properties of the document upload\<close>

lemma upload_one_duplicate:
  "is_duplicate docs storeId (checksum (file_content f)) \<Longrightarrow>
   upload_one checksum submit storeId docs f = (docs, Duplicate)"
  by (simp add: upload_one_def)

lemma upload_one_accepted:
  "\<not> is_duplicate docs storeId (checksum (file_content f)) \<Longrightarrow> submit storeId f = Inr sub \<Longrightarrow>
   upload_one checksum submit storeId docs f =
     (docs @ [\<lparr>doc_store = storeId, doc_filename = file_name f,
               doc_size = length (file_content f), doc_checksum = checksum (file_content f),
               doc_status = DocProcessing, doc_error = None, doc_chunk_count = 0\<rparr>], Indexed)"
  by (simp add: upload_one_def)

lemma live_copies_none:
  "\<not> is_duplicate docs storeId cs \<Longrightarrow> live_copies docs storeId cs = []"
  by (auto simp: is_duplicate_def live_copies_def filter_empty_conv)

text \<open>
  C4: a file whose checksum equals that of a Document of the same store that is not
  \<^verbatim>\<open>failed\<close> adds no row and is reported as \<^verbatim>\<open>duplicate\<close>; and where the store holds no
  such Document and the runtime accepts the file, uploading the same content twice gives the
  outcomes \<^verbatim>\<open>indexed\<close>, \<^verbatim>\<open>duplicate\<close>, one new row, and exactly one \<^verbatim>\<open>processing\<close> or
  \<^verbatim>\<open>completed\<close> Document with that checksum in the store.
\<close>

theorem C4_duplicate_upload:
  "(is_duplicate docs storeId (checksum (file_content f)) \<longrightarrow>
      orchestrator_uploadDocuments checksum submit storeId docs [f] = (docs, [Duplicate]))
   \<and> (\<not> is_duplicate docs storeId (checksum (file_content f)) \<and> submit storeId f = Inr sub
        \<and> file_content g = file_content f \<longrightarrow>
      snd (orchestrator_uploadDocuments checksum submit storeId docs [f, g]) = [Indexed, Duplicate]
      \<and> length (fst (orchestrator_uploadDocuments checksum submit storeId docs [f, g]))
          = Suc (length docs)
      \<and> length (live_copies (fst (orchestrator_uploadDocuments checksum submit storeId docs [f, g]))
                  storeId (checksum (file_content f))) = 1)"
proof (intro conjI impI)
  assume "is_duplicate docs storeId (checksum (file_content f))"
  then show "orchestrator_uploadDocuments checksum submit storeId docs [f] = (docs, [Duplicate])"
    by (simp add: upload_one_duplicate)
next
  assume a: "\<not> is_duplicate docs storeId (checksum (file_content f)) \<and> submit storeId f = Inr sub
        \<and> file_content g = file_content f"
  let ?row = "\<lparr>doc_store = storeId, doc_filename = file_name f,
               doc_size = length (file_content f), doc_checksum = checksum (file_content f),
               doc_status = DocProcessing, doc_error = None, doc_chunk_count = 0\<rparr>"
  from a have first: "upload_one checksum submit storeId docs f = (docs @ [?row], Indexed)"
    by (simp add: upload_one_accepted)
  have "is_duplicate (docs @ [?row]) storeId (checksum (file_content g))"
    using a by (simp add: is_duplicate_def)
  then have second: "upload_one checksum submit storeId (docs @ [?row]) g = (docs @ [?row], Duplicate)"
    by (rule upload_one_duplicate)
  have run: "orchestrator_uploadDocuments checksum submit storeId docs [f, g]
      = (docs @ [?row], [Indexed, Duplicate])"
    by (simp add: first second)
  have none: "live_copies docs storeId (checksum (file_content f)) = []"
    using a by (simp add: live_copies_none)
  have one: "live_copies (docs @ [?row]) storeId (checksum (file_content f)) = [?row]"
    using none by (simp add: live_copies_def)
  show "snd (orchestrator_uploadDocuments checksum submit storeId docs [f, g]) = [Indexed, Duplicate]"
    unfolding run by simp
  show "length (fst (orchestrator_uploadDocuments checksum submit storeId docs [f, g])) = Suc (length docs)"
    unfolding run by simp
  show "length (live_copies (fst (orchestrator_uploadDocuments checksum submit storeId docs [f, g]))
                  storeId (checksum (file_content f))) = 1"
    unfolding run fst_conv one by simp
qed

theorem C4_duplicate_upload_witness:
  "is_duplicate [example_document ''finance'' ''c1'' DocCompleted] ''finance'' ''c1''
   \<and> orchestrator_uploadDocuments (\<lambda>body. ''c1'') (\<lambda>s f. Inr ''job-1'') ''finance''
        [example_document ''finance'' ''c1'' DocCompleted] [example_file ''report.pdf'' ''bytes'']
       = ([example_document ''finance'' ''c1'' DocCompleted], [Duplicate])
   \<and> \<not> is_duplicate [example_document ''vwl'' ''c1'' DocCompleted,
                        example_document ''finance'' ''c1'' DocFailed] ''finance'' ''c1''
   \<and> snd (orchestrator_uploadDocuments (\<lambda>body. ''c1'') (\<lambda>s f. Inr ''job-1'') ''finance''
        [example_document ''vwl'' ''c1'' DocCompleted, example_document ''finance'' ''c1'' DocFailed]
        [example_file ''report.pdf'' ''bytes'', example_file ''copy.pdf'' ''bytes''])
       = [Indexed, Duplicate]
   \<and> length (live_copies (fst (orchestrator_uploadDocuments (\<lambda>body. ''c1'') (\<lambda>s f. Inr ''job-1'')
        ''finance''
        [example_document ''vwl'' ''c1'' DocCompleted, example_document ''finance'' ''c1'' DocFailed]
        [example_file ''report.pdf'' ''bytes'', example_file ''copy.pdf'' ''bytes'']))
        ''finance'' ''c1'') = 1"
  using C4_duplicate_upload [of "[example_document ''finance'' ''c1'' DocCompleted]" "''finance''"
                   "\<lambda>body. ''c1''" "example_file ''report.pdf'' ''bytes''" "\<lambda>s f. Inr ''job-1''"]
    C4_duplicate_upload [of "[example_document ''vwl'' ''c1'' DocCompleted, example_document ''finance'' ''c1'' DocFailed]"
               "''finance''" "\<lambda>body. ''c1''" "example_file ''report.pdf'' ''bytes''"
               "\<lambda>s f. Inr ''job-1''" "''job-1''" "example_file ''copy.pdf'' ''bytes''"]
  by (simp add: is_duplicate_def example_document_def example_file_def)

section \<open>Properties of store deletion\<close>

lemma no_orphans_delete: "no_orphans db \<Longrightarrow> no_orphans (delete_store_row db storeId)"
  by (auto simp: no_orphans_def delete_store_row_def list_all_iff)

lemma api_deleteDocstore_settle:
  "fst (api_deleteDocstore c net i) = settle ''API request failed'' (net (delete_request c i))"
  by (simp add: api_deleteDocstore_def request_def delete_request_def Let_def)

lemma deleteDocstore_success:
  "fst (api_deleteDocstore c net i) = Inr j \<Longrightarrow>
   fst (snd (deleteDocstore st c net i)) =
     st\<lparr>docstores := filter (\<lambda>d. ds_id d \<noteq> i) (docstores st),
        currentDocstore := (case currentDocstore st of None \<Rightarrow> None
                            | Some d \<Rightarrow> if ds_id d = i then None else Some d),
        ds_isLoading := False, ds_error := None\<rparr>"
  by (cases "api_deleteDocstore c net i") (simp add: deleteDocstore_def)

lemma deleteDocstore_failure:
  "fst (api_deleteDocstore c net i) = Inl e \<Longrightarrow>
   fst (deleteDocstore st c net i) = Inl e
   \<and> docstores (fst (snd (deleteDocstore st c net i))) = docstores st"
  by (cases "api_deleteDocstore c net i") (simp add: deleteDocstore_def)

text \<open>
  C7, as stated, has every store deletion take the store out of the client's list.
  \<^verbatim>\<open>deleteDocstore\<close> removes nothing when its request fails: a request answered 500 leaves
  the list as it was, and so does one answered 204 without a body, which \<^verbatim>\<open>request\<close> turns
  into a \<^verbatim>\<open>SyntaxError\<close> by reading \<^verbatim>\<open>response.json()\<close>.
\<close>

theorem C7_client_keeps_store_counterexample:
  "docstores (fst (snd (deleteDocstore example_docstore_state example_client
       (answering 500 (JObj [(''detail'', JStr ''boom'')])) ''a'')))
     = [example_docstore ''a'', example_docstore ''b'']
   \<and> fst (deleteDocstore example_docstore_state example_client
       (\<lambda>q. Responded \<lparr>status = 204, body_json = None\<rparr>) ''a'') = Inl SyntaxError
   \<and> docstores (fst (snd (deleteDocstore example_docstore_state example_client
       (\<lambda>q. Responded \<lparr>status = 204, body_json = None\<rparr>) ''a'')))
     = [example_docstore ''a'', example_docstore ''b'']"
  by (simp add: deleteDocstore_def api_deleteDocstore_def request_def settle_def
        response_ok_def answering_def example_docstore_state_def Let_def)

text \<open>
  C7, amended: after a store is deleted no Document and no Pipeline of that store is left,
  the rows of every other store (Stores, Documents, Pipelines) are the same as before, and
  a database without orphans stays without orphans; in the client, a \<^verbatim>\<open>deleteDocstore\<close>
  whose request is answered with a status in 200..299 and a JSON body removes exactly the
  docstores with the deleted id from the list and keeps every other docstore, and one
  whose request is rejected or answered with a status outside 200..299 re-throws and leaves
  the list as it was.
\<close>

theorem C7_delete_cascade_and_frame:
  "list_all (\<lambda>d. doc_store d \<noteq> storeId) (db_documents (fst (orchestrator_deleteStore deleteIndex db storeId)))
   \<and> list_all (\<lambda>p. pl_store p \<noteq> storeId) (db_pipelines (fst (orchestrator_deleteStore deleteIndex db storeId)))
   \<and> (other \<noteq> storeId \<longrightarrow>
        filter (\<lambda>s. store_id s = other) (db_stores (fst (orchestrator_deleteStore deleteIndex db storeId)))
          = filter (\<lambda>s. store_id s = other) (db_stores db)
        \<and> filter (\<lambda>d. doc_store d = other) (db_documents (fst (orchestrator_deleteStore deleteIndex db storeId)))
          = filter (\<lambda>d. doc_store d = other) (db_documents db)
        \<and> filter (\<lambda>p. pl_store p = other) (db_pipelines (fst (orchestrator_deleteStore deleteIndex db storeId)))
          = filter (\<lambda>p. pl_store p = other) (db_pipelines db))
   \<and> (no_orphans db \<longrightarrow> no_orphans (fst (orchestrator_deleteStore deleteIndex db storeId)))
   \<and> (net (delete_request c i) = Responded r \<and> response_ok r \<and> body_json r = Some j \<longrightarrow>
        fst (deleteDocstore st c net i) = Inr ()
        \<and> docstores (fst (snd (deleteDocstore st c net i))) = filter (\<lambda>d. ds_id d \<noteq> i) (docstores st)
        \<and> list_all (\<lambda>d. ds_id d \<noteq> i) (docstores (fst (snd (deleteDocstore st c net i))))
        \<and> (\<forall>d. ds_id d \<noteq> i \<longrightarrow>
              (d \<in> set (docstores (fst (snd (deleteDocstore st c net i)))) \<longleftrightarrow> d \<in> set (docstores st))))
   \<and> (net (delete_request c i) = Rejected e
        \<or> net (delete_request c i) = Responded r \<and> \<not> response_ok r \<longrightarrow>
        isl (fst (deleteDocstore st c net i))
        \<and> docstores (fst (snd (deleteDocstore st c net i))) = docstores st)"
proof -
  have db1: "fst (orchestrator_deleteStore deleteIndex db storeId) = delete_store_row db storeId"
    by (simp add: orchestrator_deleteStore_def Let_def)
  have gone: "list_all (\<lambda>d. doc_store d \<noteq> storeId) (db_documents (delete_store_row db storeId))"
    "list_all (\<lambda>p. pl_store p \<noteq> storeId) (db_pipelines (delete_store_row db storeId))"
    by (simp_all add: delete_store_row_def list_all_iff)
  have frame: "other \<noteq> storeId \<longrightarrow>
        filter (\<lambda>s. store_id s = other) (db_stores (delete_store_row db storeId))
          = filter (\<lambda>s. store_id s = other) (db_stores db)
        \<and> filter (\<lambda>d. doc_store d = other) (db_documents (delete_store_row db storeId))
          = filter (\<lambda>d. doc_store d = other) (db_documents db)
        \<and> filter (\<lambda>p. pl_store p = other) (db_pipelines (delete_store_row db storeId))
          = filter (\<lambda>p. pl_store p = other) (db_pipelines db)"
    by (auto simp: delete_store_row_def intro: filter_cong)
  have client: "net (delete_request c i) = Responded r \<and> response_ok r \<and> body_json r = Some j \<longrightarrow>
        fst (deleteDocstore st c net i) = Inr ()
        \<and> docstores (fst (snd (deleteDocstore st c net i))) = filter (\<lambda>d. ds_id d \<noteq> i) (docstores st)
        \<and> list_all (\<lambda>d. ds_id d \<noteq> i) (docstores (fst (snd (deleteDocstore st c net i))))
        \<and> (\<forall>d. ds_id d \<noteq> i \<longrightarrow>
              (d \<in> set (docstores (fst (snd (deleteDocstore st c net i)))) \<longleftrightarrow> d \<in> set (docstores st)))"
  proof
    assume a: "net (delete_request c i) = Responded r \<and> response_ok r \<and> body_json r = Some j"
    then have ok: "fst (api_deleteDocstore c net i) = Inr j"
      by (simp add: api_deleteDocstore_settle settle_def)
    then have "fst (deleteDocstore st c net i) = Inr ()"
      by (cases "api_deleteDocstore c net i") (simp add: deleteDocstore_def)
    with ok show "fst (deleteDocstore st c net i) = Inr ()
        \<and> docstores (fst (snd (deleteDocstore st c net i))) = filter (\<lambda>d. ds_id d \<noteq> i) (docstores st)
        \<and> list_all (\<lambda>d. ds_id d \<noteq> i) (docstores (fst (snd (deleteDocstore st c net i))))
        \<and> (\<forall>d. ds_id d \<noteq> i \<longrightarrow>
              (d \<in> set (docstores (fst (snd (deleteDocstore st c net i)))) \<longleftrightarrow> d \<in> set (docstores st)))"
      by (simp add: deleteDocstore_success list_all_iff)
  qed
  have failed: "net (delete_request c i) = Rejected e
        \<or> net (delete_request c i) = Responded r \<and> \<not> response_ok r \<longrightarrow>
        isl (fst (deleteDocstore st c net i))
        \<and> docstores (fst (snd (deleteDocstore st c net i))) = docstores st"
  proof
    assume "net (delete_request c i) = Rejected e
        \<or> net (delete_request c i) = Responded r \<and> \<not> response_ok r"
    then obtain x where "fst (api_deleteDocstore c net i) = Inl x"
      by (auto simp: api_deleteDocstore_settle settle_def)
    then show "isl (fst (deleteDocstore st c net i))
        \<and> docstores (fst (snd (deleteDocstore st c net i))) = docstores st"
      using deleteDocstore_failure [of c net i x st] by simp
  qed
  from gone frame client failed no_orphans_delete [of db storeId] show ?thesis
    unfolding db1 by blast
qed

theorem C7_delete_cascade_and_frame_witness:
  "db_documents (fst (orchestrator_deleteStore (\<lambda>n. Inr ()) example_database ''finance''))
       = [example_document ''vwl'' ''c1'' DocCompleted]
   \<and> db_pipelines (fst (orchestrator_deleteStore (\<lambda>n. Inr ()) example_database ''finance''))
       = [example_pipeline ''vwl'']
   \<and> no_orphans example_database
   \<and> no_orphans (fst (orchestrator_deleteStore (\<lambda>n. Inr ()) example_database ''finance''))
   \<and> response_ok \<lparr>status = 200, body_json = Some JNull\<rparr>
   \<and> docstores (fst (snd (deleteDocstore example_docstore_state example_client
        (answering 200 JNull) ''a''))) = [example_docstore ''b'']
   \<and> \<not> response_ok \<lparr>status = 500, body_json = None\<rparr>
   \<and> docstores (fst (snd (deleteDocstore example_docstore_state example_client
        (answering 500 (JObj [(''detail'', JStr ''boom'')])) ''a'')))
       = [example_docstore ''a'', example_docstore ''b'']"
proof -
  note t = C7_delete_cascade_and_frame
    [where storeId = "''finance''" and deleteIndex = "\<lambda>n. Inr ()" and db = example_database
       and other = "''vwl''" and c = example_client and i = "''a''"
       and st = example_docstore_state]
  have ok: "response_ok \<lparr>status = 200, body_json = Some JNull\<rparr>"
    "\<not> response_ok \<lparr>status = 500, body_json = None\<rparr>"
    "\<not> response_ok \<lparr>status = 500, body_json = Some (JObj [(''detail'', JStr ''boom'')])\<rparr>"
    by (simp_all add: response_ok_def)
  have orph: "no_orphans example_database"
    by (simp add: no_orphans_def example_database_def example_document_def
        example_pipeline_def example_store_def)
  have server: "db_documents (fst (orchestrator_deleteStore (\<lambda>n. Inr ()) example_database ''finance''))
       = [example_document ''vwl'' ''c1'' DocCompleted]
     \<and> db_pipelines (fst (orchestrator_deleteStore (\<lambda>n. Inr ()) example_database ''finance''))
       = [example_pipeline ''vwl'']"
    using t [where net = offline]
    by (simp add: orchestrator_deleteStore_def delete_store_row_def example_database_def
        example_document_def example_pipeline_def example_store_def)
  have orph': "no_orphans (fst (orchestrator_deleteStore (\<lambda>n. Inr ()) example_database ''finance''))"
    using t [where net = offline] orph by simp
  have removed: "docstores (fst (snd (deleteDocstore example_docstore_state example_client
        (answering 200 JNull) ''a''))) = [example_docstore ''b'']"
    using t [where net = "answering 200 JNull" and r = "\<lparr>status = 200, body_json = Some JNull\<rparr>"
               and j = JNull] ok
    by (simp add: answering_def example_docstore_state_def example_docstore_def)
  have kept: "docstores (fst (snd (deleteDocstore example_docstore_state example_client
        (answering 500 (JObj [(''detail'', JStr ''boom'')])) ''a'')))
       = [example_docstore ''a'', example_docstore ''b'']"
    using t [where net = "answering 500 (JObj [(''detail'', JStr ''boom'')])"
               and r = "\<lparr>status = 500, body_json = Some (JObj [(''detail'', JStr ''boom'')])\<rparr>"] ok
    by (simp add: answering_def example_docstore_state_def)
  from ok orph server orph' removed kept show ?thesis by blast
qed

end
